theory Spec2Isabelle
  imports Complex_Main "HOL-Library.AList" "HOL-Library.Char_ord" "HOL-Library.List_Lexorder"
begin

section \<open>FalconDefender: detection and containment engine\<close>

text \<open>
  A shallow embedding of \<^verbatim>\<open>falcon/scanner.py\<close>, \<^verbatim>\<open>falcon/quarantine.py\<close>,
  \<^verbatim>\<open>falcon/yara_manager.py\<close> and of the scan controls of
  \<^verbatim>\<open>falcon/tui_integration.py\<close>. Every method becomes a function that takes the
  state it reads and returns the state it leaves. What the operating system, the clock,
  the database and the YARA library contribute is made explicit:
  \<^item> the file system is a store of regular files, kept in the order in which a directory
    walk meets them;
  \<^item> \<^verbatim>\<open>datetime.now()\<close> reads a clock whose successive readings are a parameter;
  \<^item> the SQLite table is the list of its rows;
  \<^item> \<^verbatim>\<open>hashlib.md5\<close> and the \<^verbatim>\<open>yara\<close> module are parameters.
  The thread pool of \<^verbatim>\<open>scan_path\<close> is run in submission order. A value \<open>Inl e\<close> is the
  exception \<open>e\<close> leaving the method.
\<close>

subsection \<open>Python values\<close>

text \<open>The exceptions that the modelled code can raise or meet.\<close>

datatype exn =
    FileNotFoundError
  | AttributeError
  | YaraTimeoutError
  | YaraError
  | ShutilError
  | PermissionError
  | FileExistsError
  | NotADirectoryError

text \<open>\<^verbatim>\<open>str.startswith\<close> and \<^verbatim>\<open>str.endswith\<close>.\<close>

definition startswith :: "string \<Rightarrow> string \<Rightarrow> bool" where
  "startswith s p = (take (length p) s = p)"

definition endswith :: "string \<Rightarrow> string \<Rightarrow> bool" where
  "endswith s p = (length p \<le> length s \<and> drop (length s - length p) s = p)"

text \<open>\<^verbatim>\<open>str.rfind(c)\<close>: the last index of \<open>c\<close>, \<open>None\<close> for Python's \<open>-1\<close>.\<close>

fun rfind :: "char \<Rightarrow> string \<Rightarrow> nat option" where
  "rfind c [] = None"
| "rfind c (x # xs) =
     (case rfind c xs of
        Some i \<Rightarrow> Some (Suc i)
      | None \<Rightarrow> if x = c then Some 0 else None)"

text \<open>
  \<^verbatim>\<open>str.lower()\<close>. A string of the model is a list of bytes, and the file names and
  extensions it stands for are ASCII: on ASCII text \<^verbatim>\<open>str.lower()\<close> maps the 26 capitals
  and nothing else. The case mapping that Python applies to other letters is not modelled.
\<close>

definition lower_char :: "char \<Rightarrow> char" where
  "lower_char c =
     (case map_of (zip ''ABCDEFGHIJKLMNOPQRSTUVWXYZ'' ''abcdefghijklmnopqrstuvwxyz'') c of
        None \<Rightarrow> c
      | Some l \<Rightarrow> l)"

definition lower :: "string \<Rightarrow> string" where
  "lower s = map lower_char s"

subsection \<open>Paths\<close>

text \<open>
  A path is the tuple \<^verbatim>\<open>PurePosixPath.parts\<close>: the root \<open>''/''\<close> first when the path
  is absolute, then the components. Two \<^verbatim>\<open>Path\<close> objects are equal when their parts are.
\<close>

type_synonym path = "string list"

definition path_name :: "path \<Rightarrow> string" where
  "path_name p = (if p = [] \<or> p = [''/''] then [] else last p)"

fun join_parts :: "string list \<Rightarrow> string" where
  "join_parts [] = []"
| "join_parts [c] = c"
| "join_parts (c # d # cs) = c @ ''/'' @ join_parts (d # cs)"

definition str_path :: "path \<Rightarrow> string" where
  "str_path p =
     (case p of
        [] \<Rightarrow> ''.''
      | c # cs \<Rightarrow> if c = ''/'' then ''/'' @ join_parts cs else join_parts p)"

text \<open>
  \<^verbatim>\<open>PurePath.suffix\<close>: the name from its last dot on, when that dot is neither the
  first nor the last character of the name.
\<close>

definition path_suffix :: "path \<Rightarrow> string" where
  "path_suffix p =
     (let name = path_name p in
      case rfind (CHR ''.'') name of
        None \<Rightarrow> []
      | Some i \<Rightarrow> if 0 < i \<and> Suc i < length name then drop i name else [])"

text \<open>\<^verbatim>\<open>PurePath.parent\<close>.\<close>

definition path_parent :: "path \<Rightarrow> path" where
  "path_parent p = (if p = [''/''] then p else butlast p)"

text \<open>The path itself and the paths above it, from the top down.\<close>

fun ancestors :: "path \<Rightarrow> path list" where
  "ancestors [] = []"
| "ancestors (c # cs) = [c] # map ((#) c) (ancestors cs)"

text \<open>\<open>under d q\<close>: \<open>q\<close> lies in the tree below the directory \<open>d\<close>.\<close>

definition under :: "path \<Rightarrow> path \<Rightarrow> bool" where
  "under d q = (length d < length q \<and> take (length d) q = d)"

subsection \<open>The file system\<close>

text \<open>
  A regular file has its bytes, its modification time and whether the process may read
  it. \<^verbatim>\<open>st_mtime\<close> is a float; only its order is used, and every finite float is a
  rational number.
\<close>

record regfile =
  content :: string
  mtime :: rat
  readable :: bool

text \<open>
  The store holds the regular files. Directories are implicit: a directory is there when a
  file lies below it, so a directory that is empty is not told from a path that holds
  nothing. The order of the store is the order in which \<^verbatim>\<open>os.walk\<close> and
  \<^verbatim>\<open>Path.rglob\<close> meet the files.
\<close>

type_synonym fs = "(path \<times> regfile) list"

definition file_at :: "fs \<Rightarrow> path \<Rightarrow> regfile option" where
  "file_at fs p = map_of fs p"

definition is_file :: "fs \<Rightarrow> path \<Rightarrow> bool" where
  "is_file fs p = (file_at fs p \<noteq> None)"

definition is_dir :: "fs \<Rightarrow> path \<Rightarrow> bool" where
  "is_dir fs d = (\<not> is_file fs d \<and> list_ex (\<lambda>e. under d (fst e)) fs)"

text \<open>\<^verbatim>\<open>Path.exists()\<close>.\<close>

definition path_exists :: "fs \<Rightarrow> path \<Rightarrow> bool" where
  "path_exists fs p = (is_file fs p \<or> is_dir fs p)"

text \<open>\<^verbatim>\<open>p.stat().st_mtime\<close>: raises when nothing is at \<open>p\<close>.\<close>

definition stat_mtime :: "fs \<Rightarrow> path \<Rightarrow> exn + rat" where
  "stat_mtime fs p =
     (case file_at fs p of None \<Rightarrow> Inl FileNotFoundError | Some f \<Rightarrow> Inr (mtime f))"

text \<open>
  \<^verbatim>\<open>shutil.move(src, dst)\<close> of a regular file. When \<open>dst\<close> is a directory the file goes
  into it under its own name, and \<^verbatim>\<open>shutil.Error\<close> is raised when that name is taken there.
  Otherwise the move is a rename, which replaces a file already at \<open>dst\<close>.
\<close>

definition shutil_move :: "fs \<Rightarrow> path \<Rightarrow> path \<Rightarrow> exn + fs" where
  "shutil_move fs src dst =
     (case file_at fs src of
        None \<Rightarrow> Inl FileNotFoundError
      | Some f \<Rightarrow>
          if is_dir fs dst
          then (let real_dst = dst @ [path_name src] in
                if path_exists fs real_dst then Inl ShutilError
                else Inr (AList.update real_dst f (AList.delete src fs)))
          else Inr (AList.update dst f (AList.delete src fs)))"

text \<open>
  \<^verbatim>\<open>d.mkdir(parents=True, exist_ok=True)\<close>: the exception it raises, if any. It raises
  \<^verbatim>\<open>NotADirectoryError\<close> when a path above \<open>d\<close> holds a file and \<^verbatim>\<open>FileExistsError\<close>
  when \<open>d\<close> itself does. The directories it makes are empty, so the store is as it was.
\<close>

definition mkdir_parents :: "fs \<Rightarrow> path \<Rightarrow> exn option" where
  "mkdir_parents fs d =
     (if list_ex (is_file fs) (butlast (ancestors d)) then Some NotADirectoryError
      else if is_file fs d then Some FileExistsError
      else None)"

text \<open>\<^verbatim>\<open>os.remove(p)\<close>.\<close>

definition os_remove :: "fs \<Rightarrow> path \<Rightarrow> fs" where
  "os_remove fs p = AList.delete p fs"

text \<open>\<^verbatim>\<open>os.walk(d)\<close>, flattened to the files it yields.\<close>

definition os_walk :: "fs \<Rightarrow> path \<Rightarrow> path list" where
  "os_walk fs d = filter (under d) (map fst fs)"

subsection \<open>Configuration\<close>

text \<open>
  The keys of \<^verbatim>\<open>ConfigManager\<close> that the engine reads. An extension list that is absent
  reads as \<^verbatim>\<open>None\<close>, which the extension tests treat like the empty list. The size
  ceiling has a value, as in the default configuration: a configuration without the key
  \<^verbatim>\<open>max_file_size_mb\<close>, on which the size test raises \<^verbatim>\<open>TypeError\<close>, is not among the
  values of the record.
\<close>

record config =
  max_file_size_mb :: rat
  allowed_extensions :: "string list"
  blocked_extensions :: "string list"
  quarantine_dir :: path
  rules_dir :: path

text \<open>\<^verbatim>\<open>ConfigManager._get_default_config\<close>, with the two directories given.\<close>

definition get_default_config :: "path \<Rightarrow> path \<Rightarrow> config" where
  "get_default_config qdir rdir =
     \<lparr> max_file_size_mb = 100,
       allowed_extensions = [],
       blocked_extensions = [''.tmp'', ''.log'', ''.bak''],
       quarantine_dir = qdir,
       rules_dir = rdir \<rparr>"

subsection \<open>The eligibility filter\<close>

text \<open>
  \<^verbatim>\<open>Scanner._is_file_scannable\<close>. The first case is \<^verbatim>\<open>not file_path.is_file()\<close>,
  the test of \<open>readable\<close> is \<^verbatim>\<open>os.access(file_path, os.R_OK)\<close>, and the length of the
  content is \<^verbatim>\<open>st_size\<close>. The size in megabytes is the float
  \<^verbatim>\<open>st_size / (1024 * 1024)\<close>; dividing by a power of two is exact, so the comparison
  is the one of the rationals.
\<close>

definition system_paths :: "path list" where
  "system_paths = [[''/'', ''proc''], [''/'', ''sys''], [''/'', ''dev'']]"

definition is_file_scannable :: "config \<Rightarrow> fs \<Rightarrow> path \<Rightarrow> bool" where
  "is_file_scannable cfg fs file_path =
     (case file_at fs file_path of
        None \<Rightarrow> False
      | Some f \<Rightarrow>
          if \<not> readable f then False
          else if of_nat (length (content f)) / (1024 * 1024) > max_file_size_mb cfg then False
          else
            let ext = lower (path_suffix file_path) in
            if allowed_extensions cfg \<noteq> [] \<and> ext \<notin> set (allowed_extensions cfg) then False
            else if blocked_extensions cfg \<noteq> [] \<and> ext \<in> set (blocked_extensions cfg) then False
            else if path_suffix file_path = ''.yar'' \<or> path_suffix file_path = ''.yarac''
              then False
            else if list_ex (\<lambda>p. startswith (str_path file_path) (str_path p)) system_paths
              then False
            else True)"

subsection \<open>The world\<close>

text \<open>
  The world outside the Python objects: the files, the table \<^verbatim>\<open>quarantine_files\<close> of
  the quarantine database, and the clock. \<open>now w k\<close> is the instant that the \<open>k\<close>-th reading
  of the clock gives, \<open>ticks\<close> counts the readings made so far, and \<open>strftime w\<close> prints an
  instant as \<^verbatim>\<open>strftime("%Y%m%d%H%M%S%f")\<close> does. Nothing is assumed of the readings: two
  of them may be equal. The database keeps an instant where the code keeps its
  \<^verbatim>\<open>isoformat()\<close>.
\<close>

text \<open>
  The dictionary \<^verbatim>\<open>match_info\<close> built by \<^verbatim>\<open>Scanner._scan_file\<close>. The keys
  \<^verbatim>\<open>rule_name\<close> and \<^verbatim>\<open>file_hash\<close> are read with \<^verbatim>\<open>dict.get\<close> and may be absent.
\<close>

datatype action =
    Detected
  | Quarantined_to "path option"
  | Failed_to_quarantine exn

record match_info =
  m_file_path :: string
  m_rule_name :: "string option"
  m_namespace :: string
  m_tags :: "string list"
  m_meta :: "(string \<times> string) list"
  m_strings :: "string list"
  m_description :: string
  m_confidence :: string
  m_action :: action
  m_file_hash :: "string option"

text \<open>A row of \<^verbatim>\<open>quarantine_files\<close>; \<open>None\<close> is SQL's \<^verbatim>\<open>NULL\<close>.\<close>

record qrow =
  row_id :: nat
  original_path :: path
  quarantine_path :: path
  file_hash :: "string option"
  quarantined_at :: rat
  rule_name :: string
  match_details :: match_info
  restored_at :: "rat option"
  deleted_at :: "rat option"

record world =
  files :: fs
  quarantine_files :: "qrow list"
  now :: "nat \<Rightarrow> rat"
  ticks :: nat
  strftime :: "rat \<Rightarrow> string"

definition datetime_now :: "world \<Rightarrow> rat \<times> world" where
  "datetime_now w = (now w (ticks w), w\<lparr>ticks := Suc (ticks w)\<rparr>)"

subsection \<open>The containment store\<close>

text \<open>\<^verbatim>\<open>QuarantineManager._generate_quarantine_path\<close>.\<close>

definition generate_quarantine_path :: "config \<Rightarrow> world \<Rightarrow> path \<Rightarrow> path \<times> world" where
  "generate_quarantine_path cfg w original =
     (let (timestamp, w1) = datetime_now w;
          new_name = path_name original @ ''_'' @ strftime w timestamp
      in (quarantine_dir cfg @ [new_name], w1))"

text \<open>
  \<^verbatim>\<open>INSERT INTO quarantine_files\<close>: the key is \<^verbatim>\<open>AUTOINCREMENT\<close> and rows are never
  removed, so the new key is one more than the number of rows. The column
  \<^verbatim>\<open>quarantine_path\<close> is \<^verbatim>\<open>UNIQUE\<close>: the insertion fails (\<^verbatim>\<open>sqlite3.IntegrityError\<close>)
  when a row already has that path.
\<close>

definition sql_insert :: "qrow list \<Rightarrow> path \<Rightarrow> path \<Rightarrow> string option \<Rightarrow> rat \<Rightarrow> string
    \<Rightarrow> match_info \<Rightarrow> qrow list option" where
  "sql_insert rows orig qp fhash stamp rname details =
     (if list_ex (\<lambda>r. quarantine_path r = qp) rows then None
      else Some (rows @
        [\<lparr> row_id = Suc (length rows), original_path = orig, quarantine_path = qp,
           file_hash = fhash, quarantined_at = stamp, rule_name = rname,
           match_details = details, restored_at = None, deleted_at = None \<rparr>]))"

text \<open>
  \<^verbatim>\<open>QuarantineManager.quarantine_file\<close>. The result is the returned value or the exception
  that leaves the method, with the world as the call leaves it. The handler of the
  \<^verbatim>\<open>try\<close> names \<^verbatim>\<open>json.JSONEncodeError\<close>, which the module \<^verbatim>\<open>json\<close> does not
  have: when the move or the insertion raises, evaluating the handler raises
  \<^verbatim>\<open>AttributeError\<close>, and that exception leaves the method; a failed insertion leaves
  the file moved.
\<close>

definition quarantine_file ::
    "config \<Rightarrow> world \<Rightarrow> path \<Rightarrow> match_info \<Rightarrow> (exn + path option) \<times> world" where
  "quarantine_file cfg w file_path info =
     (if \<not> is_file (files w) file_path then (Inr None, w)
      else
        let (qp, w1) = generate_quarantine_path cfg w file_path in
        case shutil_move (files w1) file_path qp of
          Inl e \<Rightarrow> (Inl AttributeError, w1)
        | Inr moved \<Rightarrow>
            let w2 = w1\<lparr>files := moved\<rparr>;
                (stamp, w3) = datetime_now w2;
                rname = (case m_rule_name info of None \<Rightarrow> ''Unknown'' | Some n \<Rightarrow> n)
            in case sql_insert (quarantine_files w3) file_path qp (m_file_hash info) stamp
                      rname info of
                 None \<Rightarrow> (Inl AttributeError, w3)
               | Some rows \<Rightarrow> (Inr (Some qp), w3\<lparr>quarantine_files := rows\<rparr>))"

text \<open>\<^verbatim>\<open>cursor.fetchone()\<close> after a \<^verbatim>\<open>SELECT ... WHERE\<close>: the first row that qualifies.\<close>

definition fetchone :: "(qrow \<Rightarrow> bool) \<Rightarrow> qrow list \<Rightarrow> qrow option" where
  "fetchone cond rows = find cond rows"

text \<open>\<^verbatim>\<open>UPDATE quarantine_files SET ... WHERE id = ?\<close>.\<close>

definition sql_update :: "nat \<Rightarrow> (qrow \<Rightarrow> qrow) \<Rightarrow> qrow list \<Rightarrow> qrow list" where
  "sql_update record_id f rows = map (\<lambda>r. if row_id r = record_id then f r else r) rows"

text \<open>
  \<^verbatim>\<open>QuarantineManager.restore_file\<close>. Its handler catches \<^verbatim>\<open>shutil.Error\<close> and returns
  \<^verbatim>\<open>False\<close>; any other exception of \<^verbatim>\<open>mkdir\<close> or of the move leaves the method.
\<close>

definition restore_file :: "world \<Rightarrow> nat \<Rightarrow> (exn + bool) \<times> world" where
  "restore_file w record_id =
     (case fetchone (\<lambda>r. row_id r = record_id \<and> restored_at r = None) (quarantine_files w) of
        None \<Rightarrow> (Inr False, w)
      | Some r \<Rightarrow>
          if \<not> is_file (files w) (quarantine_path r) then (Inr False, w)
          else if path_exists (files w) (original_path r) then (Inr False, w)
          else
            case mkdir_parents (files w) (path_parent (original_path r)) of
              Some e \<Rightarrow> (Inl e, w)
            | None \<Rightarrow>
                (case shutil_move (files w) (quarantine_path r) (original_path r) of
                   Inl e \<Rightarrow> (if e = ShutilError then (Inr False, w) else (Inl e, w))
                 | Inr moved \<Rightarrow>
                     let w1 = w\<lparr>files := moved\<rparr>;
                         (stamp, w2) = datetime_now w1
                     in (Inr True, w2\<lparr>quarantine_files :=
                           sql_update record_id (\<lambda>x. x\<lparr>restored_at := Some stamp\<rparr>)
                             (quarantine_files w2)\<rparr>)))"

text \<open>\<^verbatim>\<open>QuarantineManager.delete_quarantined_file\<close>.\<close>

definition delete_quarantined_file :: "world \<Rightarrow> nat \<Rightarrow> bool \<times> world" where
  "delete_quarantined_file w record_id =
     (case fetchone (\<lambda>r. row_id r = record_id \<and> deleted_at r = None) (quarantine_files w) of
        None \<Rightarrow> (False, w)
      | Some r \<Rightarrow>
          let w1 = (if is_file (files w) (quarantine_path r)
                    then w\<lparr>files := os_remove (files w) (quarantine_path r)\<rparr> else w);
              (stamp, w2) = datetime_now w1
          in (True, w2\<lparr>quarantine_files :=
                sql_update record_id (\<lambda>x. x\<lparr>deleted_at := Some stamp\<rparr>) (quarantine_files w2)\<rparr>))"


text \<open>
  Writing a file (\<^verbatim>\<open>Path.write_text\<close>, \<^verbatim>\<open>Rules.save\<close>): the file gets the content and
  the instant of a reading of the clock as its modification time.
\<close>

definition write_file :: "world \<Rightarrow> path \<Rightarrow> string \<Rightarrow> world" where
  "write_file w p c =
     (let (stamp, w1) = datetime_now w
      in w1\<lparr>files := AList.update p \<lparr>content = c, mtime = stamp, readable = True\<rparr> (files w1)\<rparr>)"

text \<open>
  \<^verbatim>\<open>if p.exists(): p.unlink()\<close>, on the two paths of the compiled cache, which hold a
  regular file or nothing.
\<close>

definition unlink_if_exists :: "world \<Rightarrow> path \<Rightarrow> world" where
  "unlink_if_exists w p =
     (if is_file (files w) p then w\<lparr>files := os_remove (files w) p\<rparr> else w)"

subsection \<open>The rule compiler and store\<close>

text \<open>
  What the \<^verbatim>\<open>yara\<close> module does is a parameter. A compiled rule set is a value of the
  type \<open>'r\<close>. \<open>yara_compile\<close> is \<^verbatim>\<open>yara.compile(filepaths=..., error_on_warning=True)\<close>, given
  for each namespace the text of its file, in the order of the dictionary; \<open>rule_count\<close> is
  \<^verbatim>\<open>len(list(rules))\<close>; \<open>yara_save\<close> and \<open>yara_load\<close> are \<^verbatim>\<open>Rules.save\<close> and
  \<^verbatim>\<open>yara.load\<close> on the bytes of the compiled file; \<open>yara_match\<close> is \<^verbatim>\<open>Rules.match\<close> on
  the bytes of the file matched, with the configured timeout. \<open>Inl\<close> is a raised
  \<^verbatim>\<open>yara.Error\<close> or \<^verbatim>\<open>yara.TimeoutError\<close>.
\<close>

record ymatch =
  y_rule :: string
  y_namespace :: string
  y_tags :: "string list"
  y_meta :: "(string \<times> string) list"
  y_strings :: "string list"

record 'r yara_lib =
  yara_compile :: "(string \<times> string) list \<Rightarrow> exn + 'r"
  rule_count :: "'r \<Rightarrow> nat"
  yara_save :: "'r \<Rightarrow> string"
  yara_load :: "string \<Rightarrow> exn + 'r"
  yara_match :: "'r \<Rightarrow> string \<Rightarrow> exn + ymatch list"

text \<open>The fields \<^verbatim>\<open>_rules\<close> and \<^verbatim>\<open>_rules_checksum\<close> of a \<^verbatim>\<open>YaraManager\<close>.\<close>

record 'r yara_manager =
  ym_rules :: "'r option"
  ym_rules_checksum :: "string option"

definition compiled_rules_path :: "config \<Rightarrow> path" where
  "compiled_rules_path cfg = rules_dir cfg @ [''compiled_rules.yarac'']"

definition checksum_path :: "config \<Rightarrow> path" where
  "checksum_path cfg = rules_dir cfg @ [''compiled_rules.yarac.checksum'']"

text \<open>
  \<^verbatim>\<open>list(d.rglob("*" + ext))\<close>: the files below \<open>d\<close> whose name ends with \<open>ext\<close>, each
  with what reading it gives, in the order of the store.
\<close>

definition rglob :: "fs \<Rightarrow> path \<Rightarrow> string \<Rightarrow> (path \<times> regfile) list" where
  "rglob fs d ext = filter (\<lambda>e. under d (fst e) \<and> endswith (path_name (fst e)) ext) fs"

text \<open>
  \<^verbatim>\<open>YaraManager._calculate_rules_checksum\<close>. \<open>md5\<close> is \<^verbatim>\<open>hashlib.md5(data).hexdigest()\<close>;
  feeding a hasher piece by piece hashes the concatenation. As in the source,
  \<open>all_rule_files\<close> is computed and not used: the test and the loop are over \<open>yar_files\<close>.
\<close>

definition calculate_rules_checksum :: "(string \<Rightarrow> string) \<Rightarrow> config \<Rightarrow> fs \<Rightarrow> string" where
  "calculate_rules_checksum md5 cfg fs =
     (let yar_files = rglob fs (rules_dir cfg) ''.yar'';
          yara_files = rglob fs (rules_dir cfg) ''.yara'';
          all_rule_files = sort_key fst (yar_files @ yara_files)
      in if yar_files = [] then []
         else md5 (concat (map (\<lambda>e. content (snd e)) yar_files)))"

text \<open>
  The dictionary \<^verbatim>\<open>{str(p.name): str(p) for p in rule_file_paths}\<close>, with the text of the
  file in place of its path: a later file of the same name replaces the earlier one and
  keeps its place.
\<close>

definition filepaths_dict :: "(path \<times> regfile) list \<Rightarrow> (string \<times> string) list" where
  "filepaths_dict es = foldl (\<lambda>d e. AList.update (path_name (fst e)) (content (snd e)) d) [] es"

text \<open>\<^verbatim>\<open>YaraManager._compile_rules\<close>.\<close>

definition compile_rules :: "'r yara_lib \<Rightarrow> config \<Rightarrow> world \<Rightarrow> 'r option \<times> world" where
  "compile_rules lib cfg w =
     (let yar_files = rglob (files w) (rules_dir cfg) ''.yar'';
          yara_files = rglob (files w) (rules_dir cfg) ''.yara'';
          rule_file_paths = sort_key fst (yar_files @ yara_files)
      in if rule_file_paths = [] then (None, w)
         else
           case yara_compile lib (filepaths_dict rule_file_paths) of
             Inl e \<Rightarrow> (None, w)
           | Inr compiled \<Rightarrow>
               if rule_count lib compiled = 0
               then (None, unlink_if_exists (unlink_if_exists w (compiled_rules_path cfg))
                             (checksum_path cfg))
               else (Some compiled, w))"

text \<open>\<^verbatim>\<open>YaraManager._save_compiled_rules\<close>.\<close>

definition save_compiled_rules :: "'r yara_lib \<Rightarrow> config \<Rightarrow> world \<Rightarrow> 'r \<Rightarrow> string \<Rightarrow> world" where
  "save_compiled_rules lib cfg w r checksum =
     write_file (write_file w (compiled_rules_path cfg) (yara_save lib r))
       (checksum_path cfg) checksum"

text \<open>\<^verbatim>\<open>YaraManager.load_rules\<close>.\<close>

definition recompile :: "'r yara_lib \<Rightarrow> config \<Rightarrow> world \<Rightarrow> string \<Rightarrow> 'r yara_manager \<times> world" where
  "recompile lib cfg w current_checksum =
     (case compile_rules lib cfg w of
        (Some compiled, w1) \<Rightarrow>
          (\<lparr>ym_rules = Some compiled, ym_rules_checksum = Some current_checksum\<rparr>,
           save_compiled_rules lib cfg w1 compiled current_checksum)
      | (None, w1) \<Rightarrow>
          (\<lparr>ym_rules = None, ym_rules_checksum = None\<rparr>,
           unlink_if_exists (unlink_if_exists w1 (compiled_rules_path cfg)) (checksum_path cfg)))"

definition load_rules ::
    "'r yara_lib \<Rightarrow> (string \<Rightarrow> string) \<Rightarrow> config \<Rightarrow> world \<Rightarrow> bool \<Rightarrow> 'r yara_manager \<times> world" where
  "load_rules lib md5 cfg w force_recompile =
     (let current_checksum = calculate_rules_checksum md5 cfg (files w) in
      if force_recompile then recompile lib cfg w current_checksum
      else
        case (file_at (files w) (compiled_rules_path cfg), file_at (files w) (checksum_path cfg)) of
          (Some blob, Some sidecar) \<Rightarrow>
            if content sidecar = current_checksum
            then (case yara_load lib (content blob) of
                    Inr r \<Rightarrow> (\<lparr>ym_rules = Some r, ym_rules_checksum = Some current_checksum\<rparr>, w)
                  | Inl e \<Rightarrow> recompile lib cfg w current_checksum)
            else recompile lib cfg w current_checksum
        | _ \<Rightarrow> recompile lib cfg w current_checksum)"

text \<open>\<^verbatim>\<open>YaraManager.get_rules\<close>.\<close>

definition get_rules :: "'r yara_manager \<Rightarrow> 'r option" where
  "get_rules ym = ym_rules ym"

text \<open>\<^verbatim>\<open>YaraManager.check_for_updates_and_reload\<close>.\<close>

definition check_for_updates_and_reload ::
    "'r yara_lib \<Rightarrow> (string \<Rightarrow> string) \<Rightarrow> config \<Rightarrow> 'r yara_manager \<Rightarrow> world
      \<Rightarrow> bool \<times> 'r yara_manager \<times> world" where
  "check_for_updates_and_reload lib md5 cfg ym w =
     (let new_checksum = calculate_rules_checksum md5 cfg (files w) in
      if Some new_checksum \<noteq> ym_rules_checksum ym
      then (True, load_rules lib md5 cfg w True)
      else (False, ym, w))"

subsection \<open>The scan coordinator\<close>

text \<open>
  The fields of a \<^verbatim>\<open>Scanner\<close> that a scan reads or writes: \<open>rules\<close>, assigned once in
  \<^verbatim>\<open>__init__\<close> from \<^verbatim>\<open>yara_manager.get_rules()\<close>, and the dictionary
  \<^verbatim>\<open>last_scan_times\<close>.
\<close>

record 'r scanner =
  rules :: "'r option"
  last_scan_times :: "path \<rightharpoonup> rat"

definition scanner_init :: "'r yara_manager \<Rightarrow> 'r scanner" where
  "scanner_init ym = \<lparr>rules = get_rules ym, last_scan_times = Map.empty\<rparr>"

text \<open>\<^verbatim>\<open>d.get(key, "N/A")\<close> on the metadata of a rule.\<close>

definition meta_get :: "(string \<times> string) list \<Rightarrow> string \<Rightarrow> string" where
  "meta_get m k = (case map_of m k of None \<Rightarrow> ''N/A'' | Some v \<Rightarrow> v)"

text \<open>
  The body of the loop \<^verbatim>\<open>for match in yara_matches\<close> of \<^verbatim>\<open>_scan_file\<close>. The dictionary
  is appended first and its \<^verbatim>\<open>action\<close> is assigned afterwards, on the same object, so the
  list holds the final action; the copy serialised into the database row is the one made
  before. Whatever \<^verbatim>\<open>quarantine_file\<close> raises is caught here.
\<close>

fun scan_matches ::
    "config \<Rightarrow> path \<Rightarrow> bool \<Rightarrow> ymatch list \<Rightarrow> world \<Rightarrow> match_info list \<times> world" where
  "scan_matches cfg file_path quarantine_matches [] w = ([], w)"
| "scan_matches cfg file_path quarantine_matches (m # ms) w =
     (let info = \<lparr> m_file_path = str_path file_path, m_rule_name = Some (y_rule m),
                   m_namespace = y_namespace m, m_tags = y_tags m, m_meta = y_meta m,
                   m_strings = y_strings m,
                   m_description = meta_get (y_meta m) ''description'',
                   m_confidence = meta_get (y_meta m) ''confidence'',
                   m_action = Detected, m_file_hash = None \<rparr>;
          (info1, w1) =
            (if quarantine_matches
             then (case quarantine_file cfg w file_path info of
                     (Inr qp, w') \<Rightarrow> (info\<lparr>m_action := Quarantined_to qp\<rparr>, w')
                   | (Inl q_e, w') \<Rightarrow> (info\<lparr>m_action := Failed_to_quarantine q_e\<rparr>, w'))
             else (info, w));
          (rest, w2) = scan_matches cfg file_path quarantine_matches ms w1
      in (info1 # rest, w2))"

text \<open>
  Besides the regular files of the store, a walk of a scanned tree may list names of
  other kinds: a special file (a FIFO, a socket, a device), which is there and has a
  modification time; a name in a directory that the process may read but not search, on
  which \<^verbatim>\<open>is_file()\<close>, \<^verbatim>\<open>exists()\<close> and \<^verbatim>\<open>stat()\<close> raise \<^verbatim>\<open>PermissionError\<close>; and a
  symbolic link whose target is missing, on which \<^verbatim>\<open>is_file()\<close> and \<^verbatim>\<open>exists()\<close> are
  false and \<^verbatim>\<open>stat()\<close> raises \<^verbatim>\<open>FileNotFoundError\<close>. A scan is given these names; none of
  them is a path of the store.
\<close>

datatype other = Special rat | Denied | Dangling

type_synonym others = "(path \<times> other) list"

text \<open>
  The call \<^verbatim>\<open>self._is_file_scannable(file_path)\<close> of a worker. On a name that may not be
  examined the first test, \<^verbatim>\<open>file_path.is_file()\<close>, raises; on a special file or a
  dangling link it is false.
\<close>

definition call_is_file_scannable :: "config \<Rightarrow> fs \<Rightarrow> others \<Rightarrow> path \<Rightarrow> exn + bool" where
  "call_is_file_scannable cfg fs oth file_path =
     (case map_of oth file_path of
        Some Denied \<Rightarrow> Inl PermissionError
      | Some _ \<Rightarrow> Inr False
      | None \<Rightarrow> Inr (is_file_scannable cfg fs file_path))"

text \<open>
  \<^verbatim>\<open>Scanner._scan_file\<close>: the matches found in one file, or the exception that leaves the
  worker. The eligibility test is called before the \<^verbatim>\<open>try\<close>, so what it raises leaves the
  worker. Inside the \<^verbatim>\<open>try\<close>, an exception raised by \<^verbatim>\<open>rules.match\<close> (a timeout, a file
  that cannot be opened) is caught and logged, and the list, still empty then, is returned.
\<close>

definition scan_file ::
    "'r yara_lib \<Rightarrow> config \<Rightarrow> 'r scanner \<Rightarrow> world \<Rightarrow> others \<Rightarrow> path \<Rightarrow> bool
      \<Rightarrow> (exn + match_info list) \<times> world" where
  "scan_file lib cfg sc w oth file_path quarantine_matches =
     (case call_is_file_scannable cfg (files w) oth file_path of
        Inl e \<Rightarrow> (Inl e, w)
      | Inr scannable \<Rightarrow>
          if \<not> scannable then (Inr [], w)
          else
            case rules sc of
              None \<Rightarrow> (Inr [], w)
            | Some r \<Rightarrow>
                (case file_at (files w) file_path of
                   None \<Rightarrow> (Inr [], w)
                 | Some f \<Rightarrow>
                     (case yara_match lib r (content f) of
                        Inl e \<Rightarrow> (Inr [], w)
                      | Inr yara_matches \<Rightarrow>
                          (let (found, w1) =
                                 scan_matches cfg file_path quarantine_matches yara_matches w
                           in (Inr found, w1)))))"

text \<open>
  The loop of \<^verbatim>\<open>scan_path\<close> over \<^verbatim>\<open>os.walk\<close>: the files that go to the workers. A file
  is left out when the scan is incremental, the dictionary has its path, and its
  modification time is at most the one recorded. \<^verbatim>\<open>stat()\<close> is called only then.
\<close>

fun walk_filter :: "bool \<Rightarrow> (path \<rightharpoonup> rat) \<Rightarrow> fs \<Rightarrow> path list \<Rightarrow> exn + path list" where
  "walk_filter incremental cache fs [] = Inr []"
| "walk_filter incremental cache fs (file_path # ps) =
     (case (if incremental then cache file_path else None) of
        None \<Rightarrow> map_sum id ((#) file_path) (walk_filter incremental cache fs ps)
      | Some t \<Rightarrow>
          (case stat_mtime fs file_path of
             Inl e \<Rightarrow> Inl e
           | Inr m \<Rightarrow>
               if m \<le> t then walk_filter incremental cache fs ps
               else map_sum id ((#) file_path) (walk_filter incremental cache fs ps)))"

text \<open>The same loop on the names of other kinds that the walk lists.\<close>

fun walk_others :: "bool \<Rightarrow> (path \<rightharpoonup> rat) \<Rightarrow> others \<Rightarrow> exn + path list" where
  "walk_others incremental cache [] = Inr []"
| "walk_others incremental cache ((file_path, kind) # es) =
     (case (if incremental then cache file_path else None) of
        None \<Rightarrow> map_sum id ((#) file_path) (walk_others incremental cache es)
      | Some t \<Rightarrow>
          (case kind of
             Denied \<Rightarrow> Inl PermissionError
           | Dangling \<Rightarrow> Inl FileNotFoundError
           | Special m \<Rightarrow>
               if m \<le> t then walk_others incremental cache es
               else map_sum id ((#) file_path) (walk_others incremental cache es)))"

text \<open>
  The futures, in the order of submission: each worker runs in the world that the one
  before it left, and runs whatever the others return or raise. The result is what each
  future holds and the world once the pool is idle.
\<close>

fun submit_all ::
    "'r yara_lib \<Rightarrow> config \<Rightarrow> 'r scanner \<Rightarrow> others \<Rightarrow> bool \<Rightarrow> path list \<Rightarrow> world
      \<Rightarrow> (exn + match_info list) list \<times> world" where
  "submit_all lib cfg sc oth quarantine_matches [] w = ([], w)"
| "submit_all lib cfg sc oth quarantine_matches (p # ps) w =
     (let (future, w1) = scan_file lib cfg sc w oth p quarantine_matches;
          (futures, w2) = submit_all lib cfg sc oth quarantine_matches ps w1
      in (future # futures, w2))"

text \<open>
  The loop \<^verbatim>\<open>for future in futures\<close>: \<^verbatim>\<open>future.result()\<close> returns the matches of a worker
  or raises what left it, and then the exception leaves \<^verbatim>\<open>scan_path\<close>.
\<close>

fun gather :: "(exn + match_info list) list \<Rightarrow> exn + match_info list" where
  "gather [] = Inr []"
| "gather (Inl e # futures) = Inl e"
| "gather (Inr found # futures) = map_sum id ((@) found) (gather futures)"

text \<open>
  \<^verbatim>\<open>file_path.exists()\<close> and, when it holds, \<^verbatim>\<open>file_path.stat().st_mtime\<close>, on a path
  that was handed to a worker. Such a path was listed as a file, and nothing in a session
  makes a directory of it: it holds its regular file still or, once the file is
  quarantined, nothing, or it is one of the names of other kinds.
\<close>

definition exists_mtime :: "fs \<Rightarrow> others \<Rightarrow> path \<Rightarrow> exn + rat option" where
  "exists_mtime fs oth file_path =
     (case map_of oth file_path of
        Some Denied \<Rightarrow> Inl PermissionError
      | Some (Special m) \<Rightarrow> Inr (Some m)
      | Some Dangling \<Rightarrow> Inr None
      | None \<Rightarrow> Inr (map_option mtime (file_at fs file_path)))"

text \<open>
  The loop that ends an incremental scan:
  \<^verbatim>\<open>if file_path.exists(): self.last_scan_times[file_path] = file_path.stat().st_mtime\<close>.
  The result is the exception that leaves the loop, if one does, and the dictionary as
  the loop leaves it.
\<close>

fun update_scan_times ::
    "fs \<Rightarrow> others \<Rightarrow> path list \<Rightarrow> (path \<rightharpoonup> rat) \<Rightarrow> exn option \<times> (path \<rightharpoonup> rat)" where
  "update_scan_times fs oth [] cache = (None, cache)"
| "update_scan_times fs oth (file_path # ps) cache =
     (case exists_mtime fs oth file_path of
        Inl e \<Rightarrow> (Some e, cache)
      | Inr None \<Rightarrow> update_scan_times fs oth ps cache
      | Inr (Some m) \<Rightarrow> update_scan_times fs oth ps (cache(file_path \<mapsto> m)))"

text \<open>The dictionary that \<^verbatim>\<open>scan_path\<close> returns.\<close>

record summary =
  scanned_path :: string
  total_files_scanned :: nat
  matches :: "match_info list"

text \<open>
  \<^verbatim>\<open>Scanner.scan_path\<close>, from the submission of \<open>fts\<close>, the files to scan, on. The result
  is the summary returned or the exception that leaves the method, with the scanner and
  the world as they are left.
\<close>

definition run_scan ::
    "'r yara_lib \<Rightarrow> config \<Rightarrow> 'r scanner \<Rightarrow> world \<Rightarrow> others \<Rightarrow> path \<Rightarrow> bool \<Rightarrow> bool
      \<Rightarrow> path list \<Rightarrow> (exn + summary) \<times> 'r scanner \<times> world" where
  "run_scan lib cfg sc w oth target_path incremental quarantine_matches fts =
     (let (futures, w1) = submit_all lib cfg sc oth quarantine_matches fts w in
      case gather futures of
        Inl e \<Rightarrow> (Inl e, sc, w1)
      | Inr all_matches \<Rightarrow>
          (let result = \<lparr> scanned_path = str_path target_path,
                           total_files_scanned = length fts,
                           matches = all_matches \<rparr>
           in if incremental
              then (case update_scan_times (files w1) oth fts (last_scan_times sc) of
                      (Some e, cache) \<Rightarrow> (Inl e, sc\<lparr>last_scan_times := cache\<rparr>, w1)
                    | (None, cache) \<Rightarrow> (Inr result, sc\<lparr>last_scan_times := cache\<rparr>, w1))
              else (Inr result, sc, w1)))"

text \<open>
  \<^verbatim>\<open>Scanner.scan_path\<close> on the store: the files to scan, or \<open>None\<close> when the target is
  neither a file nor a directory.
\<close>

definition files_to_scan :: "'r scanner \<Rightarrow> fs \<Rightarrow> path \<Rightarrow> bool \<Rightarrow> exn + path list option" where
  "files_to_scan sc fs target_path incremental =
     (if is_file fs target_path then Inr (Some [target_path])
      else if is_dir fs target_path
      then map_sum id Some
             (walk_filter incremental (last_scan_times sc) fs (os_walk fs target_path))
      else Inr None)"

text \<open>
  The same with the names of other kinds. \<^verbatim>\<open>target_path.is_file()\<close> raises on a target
  that may not be examined; a special file or a dangling link is neither a file nor a
  directory; a directory is walked, and the names of other kinds below it go through the
  same loop as the files of the store. A directory in which the loop keeps nothing gives
  the summary of a missing target: no file scanned, no match.
\<close>

definition enumerate_targets ::
    "'r scanner \<Rightarrow> fs \<Rightarrow> others \<Rightarrow> path \<Rightarrow> bool \<Rightarrow> exn + path list option" where
  "enumerate_targets sc fs oth target_path incremental =
     (case map_of oth target_path of
        Some Denied \<Rightarrow> Inl PermissionError
      | Some _ \<Rightarrow> Inr None
      | None \<Rightarrow>
          if is_file fs target_path then files_to_scan sc fs target_path incremental
          else
            (case files_to_scan sc fs target_path incremental of
               Inl e \<Rightarrow> Inl e
             | Inr listed \<Rightarrow>
                 (case walk_others incremental (last_scan_times sc)
                         (filter (\<lambda>e. under target_path (fst e)) oth) of
                    Inl e \<Rightarrow> Inl e
                  | Inr extra \<Rightarrow>
                      if extra = [] then Inr listed
                      else Inr (Some ((case listed of None \<Rightarrow> [] | Some l \<Rightarrow> l) @ extra)))))"

text \<open>\<^verbatim>\<open>Scanner.scan_path\<close>.\<close>

definition scan_path ::
    "'r yara_lib \<Rightarrow> config \<Rightarrow> 'r scanner \<Rightarrow> world \<Rightarrow> others \<Rightarrow> path \<Rightarrow> bool \<Rightarrow> bool
      \<Rightarrow> (exn + summary) \<times> 'r scanner \<times> world" where
  "scan_path lib cfg sc w oth target_path incremental quarantine_matches =
     (case enumerate_targets sc (files w) oth target_path incremental of
        Inl e \<Rightarrow> (Inl e, sc, w)
      | Inr None \<Rightarrow>
          (Inr \<lparr> scanned_path = str_path target_path, total_files_scanned = 0, matches = [] \<rparr>,
           sc, w)
      | Inr (Some fts) \<Rightarrow>
          run_scan lib cfg sc w oth target_path incremental quarantine_matches fts)"

subsection \<open>The scan controls\<close>

text \<open>
  \<^verbatim>\<open>ScannerAdapter\<close> of \<^verbatim>\<open>tui_integration.py\<close>: its state, its two events and the queue on
  which it reports to the observer. An event has a type and a message.
\<close>

datatype scan_state = IDLE | SCANNING | PAUSED | UPDATING | ERROR

record event =
  ev_type :: string
  ev_msg :: string

record scanner_adapter =
  state :: scan_state
  pause_event :: bool
  cancel_event :: bool
  event_queue :: "event list"

text \<open>\<^verbatim>\<open>await self.event_queue.put(...)\<close>.\<close>

definition put :: "scanner_adapter \<Rightarrow> string \<Rightarrow> string \<Rightarrow> scanner_adapter" where
  "put a ty msg = a\<lparr>event_queue := event_queue a @ [\<lparr>ev_type = ty, ev_msg = msg\<rparr>]\<rparr>"

text \<open>\<^verbatim>\<open>ScannerAdapter.pause\<close>.\<close>

definition pause :: "scanner_adapter \<Rightarrow> scanner_adapter" where
  "pause a =
     (if state a = SCANNING
      then put (a\<lparr>state := PAUSED, pause_event := True\<rparr>) ''info'' ''Scan paused''
      else a)"

text \<open>\<^verbatim>\<open>ScannerAdapter.resume\<close>.\<close>

definition resume :: "scanner_adapter \<Rightarrow> scanner_adapter" where
  "resume a =
     (if state a = PAUSED
      then put (a\<lparr>state := SCANNING, pause_event := False\<rparr>) ''info'' ''Scan resumed''
      else a)"

text \<open>
  The test that leaves a file out of an incremental scan: the dictionary has the path and
  the file's modification time is at most the recorded one.
\<close>

definition unchanged :: "(path \<rightharpoonup> rat) \<Rightarrow> fs \<Rightarrow> path \<Rightarrow> bool" where
  "unchanged cache fs p =
     (case cache p of None \<Rightarrow> False
      | Some t \<Rightarrow> (case file_at fs p of None \<Rightarrow> False | Some f \<Rightarrow> mtime f \<le> t))"

text \<open>
  The keys of a table filled by \<^verbatim>\<open>AUTOINCREMENT\<close> alone, from which no row is ever
  removed: the \<open>i\<close>-th row has the key \<open>i\<close>.
\<close>

definition ids_in_sequence :: "qrow list \<Rightarrow> bool" where
  "ids_in_sequence rows = (map row_id rows = map Suc [0..<length rows])"

section \<open>Example states\<close>

text \<open>Concrete files, configurations and worlds on which the properties are exercised.\<close>

definition sample_file :: regfile where
  "sample_file = \<lparr>content = ''MZ payload'', mtime = 100, readable = True\<rparr>"

definition default_cfg :: config where
  "default_cfg = get_default_config [''/'', ''var'', ''quarantine''] [''/'', ''var'', ''rules'']"

definition allow_block_cfg :: config where
  "allow_block_cfg = default_cfg\<lparr>allowed_extensions := [''.tmp'', ''.txt'']\<rparr>"

definition tmp_path :: path where
  "tmp_path = [''/'', ''home'', ''u'', ''notes.TMP'']"

definition yara_path :: path where
  "yara_path = [''/'', ''var'', ''rules'', ''extra.yara'']"






text \<open>
  A stand-in for the \<^verbatim>\<open>yara\<close> module: a rule set is a list of strings, a file matches
  the rule \<open>n\<close> when it contains \<open>n\<close>, and each rule file holds one such string.
\<close>

fun contains :: "string \<Rightarrow> string \<Rightarrow> bool" where
  "contains [] n = (n = [])"
| "contains (x # xs) n = (startswith (x # xs) n \<or> contains xs n)"

definition needle_match :: "string list \<Rightarrow> string \<Rightarrow> exn + ymatch list" where
  "needle_match r c =
     Inr (map (\<lambda>n. \<lparr>y_rule = n, y_namespace = ''default'', y_tags = [], y_meta = [],
                     y_strings = [n]\<rparr>) (filter (contains c) r))"

definition needle_lib :: "string list yara_lib" where
  "needle_lib =
     \<lparr> yara_compile = (\<lambda>d. Inr (map snd d)),
       rule_count = length,
       yara_save = (\<lambda>r. concat (map (\<lambda>n. n @ '';'') r)),
       yara_load = (\<lambda>s. Inl YaraError),
       yara_match = needle_match \<rparr>"





definition idle_adapter :: scanner_adapter where
  "idle_adapter = \<lparr>state = IDLE, pause_event = False, cancel_event = False, event_queue = []\<rparr>"

definition scanning_adapter :: scanner_adapter where
  "scanning_adapter = idle_adapter\<lparr>state := SCANNING\<rparr>"

definition evil_path :: path where
  "evil_path = [''/'', ''home'', ''u'', ''evil.exe'']"

definition evil_info :: match_info where
  "evil_info =
     \<lparr> m_file_path = ''/home/u/evil.exe'', m_rule_name = Some ''EVIL'',
       m_namespace = ''default'', m_tags = [], m_meta = [], m_strings = [''EVIL''],
       m_description = ''N/A'', m_confidence = ''N/A'', m_action = Detected,
       m_file_hash = None \<rparr>"

definition store_world :: world where
  "store_world =
     \<lparr> files = [(evil_path, sample_file)], quarantine_files = [],
       now = (\<lambda>k. 200 + of_nat k), ticks = 0,
       strftime = (\<lambda>t. ''20260101120000000000'') \<rparr>"

definition evil_quarantine_path :: path where
  "evil_quarantine_path = [''/'', ''var'', ''quarantine'', ''evil.exe_20260101120000000000'']"

definition b_yar_path :: path where
  "b_yar_path = [''/'', ''var'', ''rules'', ''b.yar'']"

definition a_yar_path :: path where
  "a_yar_path = [''/'', ''var'', ''rules'', ''a.yar'']"

definition rule_file :: "string \<Rightarrow> regfile" where
  "rule_file text = \<lparr>content = text, mtime = 50, readable = True\<rparr>"

definition doc_path :: path where
  "doc_path = [''/'', ''data'', ''doc.txt'']"

text \<open>A stand-in for \<^verbatim>\<open>hashlib.md5\<close> in the examples: the digest of a text is the text.\<close>

definition plain_digest :: "string \<Rightarrow> string" where
  "plain_digest data = data"

definition rules_world :: world where
  "rules_world =
     \<lparr> files = [(a_yar_path, rule_file ''EVIL''), (doc_path, rule_file ''a WORM here'')],
       quarantine_files = [], now = (\<lambda>k. 200 + of_nat k), ticks = 0,
       strftime = (\<lambda>t. ''20260101120000000000'') \<rparr>"




section \<open>Properties\<close>

lemmas path_simps = path_suffix_def path_name_def lower_def lower_char_def str_path_def
  startswith_def system_paths_def

subsection \<open>The eligibility filter\<close>

text \<open>
  Claim C10. With a non-empty allow-list, a file whose lower-cased extension is both in the
  allow-list and in the block-list is rejected by the eligibility filter: the allow-list
  test lets it through and the block-list test, which comes after, rejects it.
\<close>

theorem blocked_extension_wins:
  assumes "allowed_extensions cfg \<noteq> []"
    and "lower (path_suffix file_path) \<in> set (allowed_extensions cfg)"
    and "lower (path_suffix file_path) \<in> set (blocked_extensions cfg)"
  shows "\<not> is_file_scannable cfg fs file_path"
proof -
  from assms(3) have "blocked_extensions cfg \<noteq> []" by auto
  with assms(3) show ?thesis
    by (auto simp: is_file_scannable_def Let_def split: option.splits)
qed

theorem blocked_extension_wins_witness:
  "allowed_extensions allow_block_cfg \<noteq> []
   \<and> lower (path_suffix tmp_path) \<in> set (allowed_extensions allow_block_cfg)
   \<and> lower (path_suffix tmp_path) \<in> set (blocked_extensions allow_block_cfg)
   \<and> is_file [(tmp_path, sample_file)] tmp_path
   \<and> \<not> is_file_scannable allow_block_cfg [(tmp_path, sample_file)] tmp_path"
proof -
  have a: "allowed_extensions allow_block_cfg \<noteq> []"
    by (simp add: allow_block_cfg_def)
  have e: "lower (path_suffix tmp_path) = ''.tmp''"
    by (simp add: tmp_path_def path_simps)
  have b: "lower (path_suffix tmp_path) \<in> set (allowed_extensions allow_block_cfg)"
    unfolding e by (simp add: allow_block_cfg_def)
  have c: "lower (path_suffix tmp_path) \<in> set (blocked_extensions allow_block_cfg)"
    unfolding e by (simp add: allow_block_cfg_def default_cfg_def get_default_config_def)
  have d: "is_file [(tmp_path, sample_file)] tmp_path"
    by (simp add: is_file_def file_at_def)
  from a b c d blocked_extension_wins [OF a b c, of "[(tmp_path, sample_file)]"]
  show ?thesis by blast
qed

text \<open>
  Claim C4. A file with a rule-source extension is to be rejected by the filter. The filter
  tests the suffixes \<^verbatim>\<open>.yar\<close> and \<^verbatim>\<open>.yarac\<close>; the rule compiler reads \<^verbatim>\<open>*.yar\<close> and
  \<^verbatim>\<open>*.yara\<close>. Under the default configuration a readable rule source \<^verbatim>\<open>extra.yara\<close>
  in the rules directory is accepted for matching.
\<close>

theorem yara_source_accepted:
  "is_file_scannable default_cfg [(yara_path, sample_file)] yara_path"
  by (simp add: is_file_scannable_def default_cfg_def get_default_config_def sample_file_def
      file_at_def yara_path_def path_simps)

subsection \<open>The files an incremental scan considers\<close>

lemma file_at_walked:
  "p \<in> set (os_walk fs d) \<Longrightarrow> \<exists>f. file_at fs p = Some f"
  by (auto simp: os_walk_def file_at_def weak_map_of_SomeI map_of_eq_None_iff
      intro: ccontr)

lemma walk_filter_step:
  assumes "file_at fs p \<noteq> None"
  shows "walk_filter incremental cache fs (p # ps) =
     (if incremental \<and> unchanged cache fs p then walk_filter incremental cache fs ps
      else map_sum id ((#) p) (walk_filter incremental cache fs ps))"
  using assms by (auto simp: stat_mtime_def unchanged_def split: option.splits)

lemma walk_filter_filter:
  assumes "\<forall>p\<in>set ps. file_at fs p \<noteq> None"
  shows "walk_filter incremental cache fs ps =
     Inr (filter (\<lambda>p. \<not> (incremental \<and> unchanged cache fs p)) ps)"
  using assms
proof (induction ps)
  case Nil
  show ?case by simp
next
  case (Cons p ps)
  then have f: "file_at fs p \<noteq> None" by simp
  from Cons have IH: "walk_filter incremental cache fs ps =
      Inr (filter (\<lambda>p. \<not> (incremental \<and> unchanged cache fs p)) ps)" by simp
  show ?case using IH
    by (cases incremental) (simp_all add: walk_filter_step [OF f] del: walk_filter.simps)
qed

lemma files_to_scan_dir:
  assumes "is_dir fs target_path"
  shows "files_to_scan sc fs target_path incremental =
     Inr (Some (filter (\<lambda>p. \<not> (incremental \<and> unchanged (last_scan_times sc) fs p))
          (os_walk fs target_path)))"
proof -
  have "\<forall>p\<in>set (os_walk fs target_path). file_at fs p \<noteq> None"
    using file_at_walked by fastforce
  from walk_filter_filter [OF this] assms show ?thesis
    by (simp add: files_to_scan_def is_dir_def)
qed

lemma files_to_scan_total:
  "\<exists>r. files_to_scan sc fs target_path incremental = Inr r"
  using files_to_scan_dir [of fs target_path sc incremental]
  by (cases "is_dir fs target_path") (auto simp: files_to_scan_def)




subsection \<open>Pause and resume\<close>

text \<open>
  Claim C5, as the code has it. \<^verbatim>\<open>pause()\<close> acts only in the state \<^verbatim>\<open>SCANNING\<close> and
  \<^verbatim>\<open>resume()\<close> only in the state \<^verbatim>\<open>PAUSED\<close>, each changing the state and putting one
  \<^verbatim>\<open>info\<close> event on the queue; in any other state the call changes nothing and puts
  nothing on the queue.
\<close>

theorem pause_resume_guards:
  "(state a = SCANNING \<longrightarrow>
      pause a = put (a\<lparr>state := PAUSED, pause_event := True\<rparr>) ''info'' ''Scan paused'')
   \<and> (state a \<noteq> SCANNING \<longrightarrow> pause a = a)
   \<and> (state a = PAUSED \<longrightarrow>
      resume a = put (a\<lparr>state := SCANNING, pause_event := False\<rparr>) ''info'' ''Scan resumed'')
   \<and> (state a \<noteq> PAUSED \<longrightarrow> resume a = a)"
  by (simp add: pause_def resume_def)

theorem pause_resume_guards_witness:
  "state scanning_adapter = SCANNING
   \<and> state (pause scanning_adapter) = PAUSED
   \<and> map ev_type (event_queue (pause scanning_adapter)) = [''info'']
   \<and> state (resume (pause scanning_adapter)) = SCANNING
   \<and> resume scanning_adapter = scanning_adapter
   \<and> state idle_adapter \<noteq> SCANNING
   \<and> pause idle_adapter = idle_adapter"
proof -
  have s: "state scanning_adapter = SCANNING" by (simp add: scanning_adapter_def)
  have i: "state idle_adapter \<noteq> SCANNING" by (simp add: idle_adapter_def)
  have n: "state scanning_adapter \<noteq> PAUSED" by (simp add: scanning_adapter_def)
  from pause_resume_guards [of scanning_adapter] s
  have p: "pause scanning_adapter =
      put (scanning_adapter\<lparr>state := PAUSED, pause_event := True\<rparr>) ''info'' ''Scan paused''"
    by blast
  then have ps: "state (pause scanning_adapter) = PAUSED" by (simp add: put_def)
  from p have ev: "map ev_type (event_queue (pause scanning_adapter)) = [''info'']"
    by (simp add: put_def scanning_adapter_def idle_adapter_def)
  from pause_resume_guards [of "pause scanning_adapter"] ps
  have "state (resume (pause scanning_adapter)) = SCANNING" by (simp add: put_def)
  moreover from pause_resume_guards [of scanning_adapter] n
  have "resume scanning_adapter = scanning_adapter" by blast
  moreover from pause_resume_guards [of idle_adapter] i
  have "pause idle_adapter = idle_adapter" by blast
  ultimately show ?thesis using s i ps ev by blast
qed

text \<open>
  The claim as stated fails: \<^verbatim>\<open>pause()\<close> and \<^verbatim>\<open>resume()\<close> on an idle adapter leave the
  adapter as it was, and its event queue empty: no error is reported.
\<close>

theorem pause_when_idle_is_silent:
  "state idle_adapter = IDLE
   \<and> pause idle_adapter = idle_adapter
   \<and> resume idle_adapter = idle_adapter
   \<and> event_queue (pause idle_adapter) = []
   \<and> event_queue (resume idle_adapter) = []"
  by (simp add: pause_def resume_def idle_adapter_def)

subsection \<open>Terminal quarantine records\<close>

lemmas store_simps = quarantine_file_def restore_file_def delete_quarantined_file_def
  generate_quarantine_path_def datetime_now_def is_file_def file_at_def shutil_move_def
  sql_insert_def fetchone_def path_exists_def sql_update_def os_remove_def path_name_def
  is_dir_def under_def mkdir_parents_def path_parent_def

text \<open>
  Claim C1. A record that has been restored or deleted is to refuse every further
  transition, so that at most one of \<^verbatim>\<open>restored_at\<close> and \<^verbatim>\<open>deleted_at\<close> is ever set.
  \<^verbatim>\<open>restore_file\<close> selects its record with \<^verbatim>\<open>restored_at IS NULL\<close> and
  \<^verbatim>\<open>delete_quarantined_file\<close> with \<^verbatim>\<open>deleted_at IS NULL\<close>; neither looks at the other
  column. After a file is quarantined and restored, deleting the same record returns
  \<^verbatim>\<open>True\<close> and leaves the record with both columns set.
\<close>

theorem delete_after_restore_succeeds:
  "(let (res, w1) = quarantine_file default_cfg store_world evil_path evil_info;
        (restored, w2) = restore_file w1 1;
        (deleted, w3) = delete_quarantined_file w2 1
    in res = Inr (Some evil_quarantine_path)
       \<and> restored = Inr True \<and> deleted
       \<and> map (\<lambda>r. (row_id r, restored_at r, deleted_at r)) (quarantine_files w3)
           = [(1, Some 202, Some 203)])"
  by (simp add: store_simps default_cfg_def get_default_config_def store_world_def
      evil_path_def evil_info_def evil_quarantine_path_def sample_file_def)

subsection \<open>The fingerprint of the rules\<close>

lemmas glob_simps = calculate_rules_checksum_def rglob_def under_def endswith_def
  path_name_def Let_def

text \<open>
  Claim C2. The fingerprint is to cover the files of both rule-source extensions, read in
  sorted order, and to be the sentinel only when there is no rule source.
  \<^verbatim>\<open>_calculate_rules_checksum\<close> builds the sorted list of both kinds and then tests and
  reads \<^verbatim>\<open>yar_files\<close> alone, as \<^verbatim>\<open>rglob\<close> gave them: a directory whose only rule
  source is \<^verbatim>\<open>extra.yara\<close> has the sentinel, \<^verbatim>\<open>b.yar\<close> is hashed before \<^verbatim>\<open>a.yar\<close>
  when the directory lists it first, and the text of \<^verbatim>\<open>extra.yara\<close> changes nothing.
\<close>

theorem checksum_ignores_yara_files:
  "calculate_rules_checksum md5 default_cfg [(yara_path, rule_file ''EVIL'')] = []
   \<and> calculate_rules_checksum md5 default_cfg
        [(b_yar_path, rule_file ''B''), (a_yar_path, rule_file ''A''),
         (yara_path, rule_file ''EVIL'')] = md5 ''BA''
   \<and> calculate_rules_checksum md5 default_cfg
        [(b_yar_path, rule_file ''B''), (a_yar_path, rule_file ''A''),
         (yara_path, rule_file ''WORM'')] = md5 ''BA''"
  by (simp add: glob_simps default_cfg_def get_default_config_def yara_path_def b_yar_path_def
      a_yar_path_def rule_file_def)

subsection \<open>The rule set a scan matches against\<close>

lemmas rules_simps = load_rules_def recompile_def compile_rules_def save_compiled_rules_def
  write_file_def unlink_if_exists_def check_for_updates_and_reload_def filepaths_dict_def
  compiled_rules_path_def checksum_path_def get_rules_def scanner_init_def needle_lib_def
  needle_match_def plain_digest_def

lemmas scan_simps = scan_path_def enumerate_targets_def files_to_scan_def run_scan_def
  scan_file_def call_is_file_scannable_def is_file_scannable_def meta_get_def

text \<open>
  Claim C6. After a reload has swapped the active rule set, matching is to use the new one.
  A \<^verbatim>\<open>Scanner\<close> reads \<^verbatim>\<open>yara_manager.get_rules()\<close> once, in \<^verbatim>\<open>__init__\<close>. Here the
  manager loads a rule for \<^verbatim>\<open>EVIL\<close>, a scanner is made, the rule file is rewritten to a
  rule for \<^verbatim>\<open>WORM\<close>, and \<^verbatim>\<open>check_for_updates_and_reload\<close> returns \<^verbatim>\<open>True\<close> with the new
  rule set active. The scanner then finds nothing in a file that holds \<^verbatim>\<open>WORM\<close>; a
  scanner made after the reload finds it.
\<close>

theorem scanner_keeps_old_rules:
  "(let (ym0, w0) = load_rules needle_lib plain_digest default_cfg rules_world False;
        sc = scanner_init ym0;
        w1 = write_file w0 a_yar_path ''WORM'';
        (reloaded, ym1, w2) =
          check_for_updates_and_reload needle_lib plain_digest default_cfg ym0 w1
    in reloaded
       \<and> get_rules ym1 = Some [''WORM'']
       \<and> rules sc = Some [''EVIL'']
       \<and> map_sum id (\<lambda>s. map m_rule_name (matches s))
            (fst (scan_path needle_lib default_cfg sc w2 [] doc_path False False)) = Inr []
       \<and> map_sum id (\<lambda>s. map m_rule_name (matches s))
            (fst (scan_path needle_lib default_cfg (scanner_init ym1) w2 [] doc_path False False))
           = Inr [Some ''WORM''])"
  by (simp add: rules_simps scan_simps glob_simps store_simps path_simps default_cfg_def
      get_default_config_def rules_world_def a_yar_path_def doc_path_def rule_file_def)

subsection \<open>What a scan session leaves\<close>



















subsection \<open>Errors while matching\<close>











subsection \<open>Quarantine and restore\<close>




lemma ids_in_sequence_insert:
  assumes "ids_in_sequence rows"
    and "sql_insert rows orig qp fhash stamp rname details = Some rows'"
  shows "ids_in_sequence rows'"
  using assms by (auto simp: sql_insert_def ids_in_sequence_def split: if_splits)

lemma ids_in_sequence_update:
  assumes "ids_in_sequence rows" and "\<And>r. row_id (f r) = row_id r"
  shows "ids_in_sequence (sql_update i f rows)"
proof -
  have "map row_id (sql_update i f rows) = map row_id rows"
    by (induction rows) (simp_all add: sql_update_def assms(2))
  with assms(1) show ?thesis by (simp add: ids_in_sequence_def sql_update_def)
qed

lemma ancestors_prefix:
  "a \<in> set (ancestors d) \<Longrightarrow> a \<noteq> [] \<and> length a \<le> length d \<and> take (length a) d = a"
  by (induction d arbitrary: a) auto

lemma is_file_after_move:
  "is_file (AList.update qp f (AList.delete p fs)) a \<Longrightarrow> a = qp \<or> is_file fs a"
  by (auto simp: is_file_def file_at_def update_conv' delete_conv' split: if_splits)

lemma not_above_moved_file:
  assumes "file_at fs p = Some f" and "\<not> is_dir fs qp" and "\<not> is_file fs qp"
  shows "\<not> under qp p"
proof
  assume "under qp p"
  moreover from assms(1) have "(p, f) \<in> set fs" by (simp add: file_at_def map_of_SomeD)
  ultimately have "list_ex (\<lambda>e. under qp (fst e)) fs"
    unfolding list_ex_iff by (intro bexI [of _ "(p, f)"]) simp_all
  with assms(2,3) show False by (simp add: is_dir_def)
qed

lemma mkdir_after_quarantine:
  assumes "file_at fs p = Some f" and "\<not> is_dir fs qp" and "qp \<noteq> p"
    and "mkdir_parents fs (path_parent p) = None"
  shows "mkdir_parents (AList.update qp f (AList.delete p fs)) (path_parent p) = None"
proof -
  define fs1 where "fs1 = AList.update qp f (AList.delete p fs)"
  define d where "d = path_parent p"
  from assms(4) have old: "\<not> list_ex (is_file fs) (butlast (ancestors d))" "\<not> is_file fs d"
    by (auto simp: mkdir_parents_def d_def split: if_splits)
  have above: "a = p \<or> under a p" if "a = d \<or> a \<in> set (butlast (ancestors d))" for a
  proof -
    from that have "a = d \<or> a \<in> set (ancestors d)" by (auto dest: in_set_butlastD)
    then have "length a \<le> length d \<and> take (length a) d = a"
      using ancestors_prefix [of a d] by auto
    then have le: "length a \<le> length d" and tk: "take (length a) d = a" by simp_all
    show ?thesis
    proof (cases "p = [''/''] \<or> p = []")
      case True
      with that show ?thesis by (auto simp: d_def path_parent_def)
    next
      case False
      then have dp: "d = butlast p" and "p \<noteq> []" by (simp_all add: d_def path_parent_def)
      then have "length d < length p" by simp
      moreover from tk dp have "take (length a) p = a"
        using le by (metis butlast_conv_take length_butlast take_take min.absorb1 dp)
      ultimately show ?thesis using le by (simp add: under_def)
    qed
  qed
  have keep: "\<not> is_file fs1 a" if a: "a = d \<or> a \<in> set (butlast (ancestors d))" for a
  proof
    assume "is_file fs1 a"
    then have "a = qp \<or> is_file fs a" unfolding fs1_def by (rule is_file_after_move)
    moreover from a old have nf: "\<not> is_file fs a" by (auto simp: list_ex_iff)
    ultimately have q: "a = qp" by simp
    from above [OF a] q assms(3) have "under qp p" by auto
    with not_above_moved_file [OF assms(1,2)] nf q show False by simp
  qed
  then have "\<not> list_ex (is_file fs1) (butlast (ancestors d))" "\<not> is_file fs1 d"
    by (auto simp: list_ex_iff)
  then show ?thesis by (simp add: mkdir_parents_def fs1_def d_def)
qed


lemma ids_in_sequence_empty: "ids_in_sequence []"
  by (simp add: ids_in_sequence_def)

lemma ids_in_sequence_quarantine:
  assumes "ids_in_sequence (quarantine_files w)"
  shows "ids_in_sequence (quarantine_files (snd (quarantine_file cfg w p info)))"
  using assms
  by (auto simp: quarantine_file_def generate_quarantine_path_def datetime_now_def Let_def
      case_prod_beta ids_in_sequence_insert split: option.splits sum.splits)

lemma ids_in_sequence_restore:
  assumes "ids_in_sequence (quarantine_files w)"
  shows "ids_in_sequence (quarantine_files (snd (restore_file w i)))"
  using assms
  by (auto simp: restore_file_def datetime_now_def ids_in_sequence_update
      split: option.splits sum.splits)

lemma ids_in_sequence_delete:
  assumes "ids_in_sequence (quarantine_files w)"
  shows "ids_in_sequence (quarantine_files (snd (delete_quarantined_file w i)))"
  using assms
  by (auto simp: delete_quarantined_file_def datetime_now_def Let_def ids_in_sequence_update
      split: option.splits)



end
